theory Spec2Isabelle
  imports Complex_Main
begin

section \<open>Python values, errors and strings\<close>

text \<open>
  A cell of a pandas table, and every value handed to \<open>normalize_text\<close>, is a Python
  string or a Python integer. Floating-point cells are outside the model: amounts are
  whole numbers, sums are exact, and a mean is an exact rational.

  A Python \<open>str\<close> is a \<open>string\<close> holding the UTF-8 bytes of the text. The ASCII range
  is modelled character by character. A code point outside ASCII is a run of bytes above
  127; \<open>normalize_text\<close> turns each of them into a space and then merges the run, which
  is what Python does with the single code point (it is either whitespace or replaced by
  a space). The two code points whose Python lower case contains an ASCII letter
  (U+212A and U+0130) are the only texts on which the byte model and Python disagree.
\<close>

datatype pyval = PStr string | PInt int

datatype pynum = Num rat | NaN

datatype pyerror = ValueError string | KeyError string | IndexError | TypeError

definition bind_err :: "pyerror + 'a \<Rightarrow> ('a \<Rightarrow> pyerror + 'b) \<Rightarrow> pyerror + 'b" where
  "bind_err m f = (case m of Inl e \<Rightarrow> Inl e | Inr x \<Rightarrow> f x)"

text \<open>\<open>str.isspace\<close> on ASCII: tab, newline, vertical tab, form feed, carriage return,
  the four separators 28 to 31, and the space. The regular expression class \<open>\s\<close> and
  \<open>str.split()\<close> both use it.\<close>

definition py_isspace :: "char \<Rightarrow> bool" where
  "py_isspace c = (of_char c \<in> {9, 10, 11, 12, 13, 28, 29, 30, 31, 32 :: nat})"

definition is_lower_az :: "char \<Rightarrow> bool" where
  "is_lower_az c = (97 \<le> (of_char c :: nat) \<and> (of_char c :: nat) \<le> 122)"

definition is_digit09 :: "char \<Rightarrow> bool" where
  "is_digit09 c = (48 \<le> (of_char c :: nat) \<and> (of_char c :: nat) \<le> 57)"

text \<open>\<open>str.lower()\<close>: the letters A to Z move to a to z, every other byte stays.\<close>

definition lower_char :: "char \<Rightarrow> char" where
  "lower_char c =
     (let n = (of_char c :: nat) in if 65 \<le> n \<and> n \<le> 90 then char_of (n + 32) else c)"

definition py_lower :: "string \<Rightarrow> string" where
  "py_lower s = map lower_char s"

text \<open>\<open>re.sub(r'[^a-z0-9\s]', ' ', text)\<close>: every character that is not a lower-case
  letter, a digit or whitespace becomes one space.\<close>

definition re_sub_special :: "string \<Rightarrow> string" where
  "re_sub_special s =
     map (\<lambda>c. if is_lower_az c \<or> is_digit09 c \<or> py_isspace c then c else CHR '' '') s"

text \<open>\<open>text.split()\<close>: the maximal runs of non-whitespace characters, in order. The
  second argument is the word being read.\<close>

fun split_ws :: "string \<Rightarrow> string \<Rightarrow> string list" where
  "split_ws [] cur = (if cur = [] then [] else [cur])"
| "split_ws (c # cs) cur =
     (if py_isspace c
      then (if cur = [] then split_ws cs [] else cur # split_ws cs [])
      else split_ws cs (cur @ [c]))"

definition py_split :: "string \<Rightarrow> string list" where
  "py_split s = split_ws s []"

text \<open>\<open>sep.join(words)\<close>.\<close>

fun py_join :: "string \<Rightarrow> string list \<Rightarrow> string" where
  "py_join sep [] = []"
| "py_join sep [w] = w"
| "py_join sep (w # v # ws) = w @ sep @ py_join sep (v # ws)"

text \<open>\<open>str(n)\<close> for an integer: decimal digits, with a minus sign when negative.\<close>

fun digits10 :: "nat \<Rightarrow> string" where
  "digits10 n =
     (if n < 10 then [char_of (48 + n)] else digits10 (n div 10) @ [char_of (48 + n mod 10)])"

declare digits10.simps [simp del]

definition py_str_int :: "int \<Rightarrow> string" where
  "py_str_int i = (if i < 0 then CHR ''-'' # digits10 (nat (- i)) else digits10 (nat i))"

fun py_str :: "pyval \<Rightarrow> string" where
  "py_str (PStr s) = s"
| "py_str (PInt i) = py_str_int i"

section \<open>utils.normalize_text\<close>

text \<open>
  \<^verbatim>\<open>
  if not isinstance(text, str):
      return str(text)
  text = text.lower()
  text = re.sub(r'[^a-z0-9\s]', ' ', text)
  text = ' '.join(text.split())
  return text
  \<close>
\<close>

fun normalize_text :: "pyval \<Rightarrow> string" where
  "normalize_text (PInt i) = py_str (PInt i)"
| "normalize_text (PStr text) = py_join '' '' (py_split (re_sub_special (py_lower text)))"

text \<open>
  The transform as the specification words it, for comparison with the code: lower-case
  the text, replace every character outside a-z, 0-9 and whitespace by a space, collapse
  each run of whitespace into one space, and trim both ends.
\<close>

function collapse_ws :: "string \<Rightarrow> string" where
  "collapse_ws [] = []"
| "collapse_ws (c # cs) =
     (if py_isspace c then CHR '' '' # collapse_ws (dropWhile py_isspace cs)
      else c # collapse_ws cs)"
  by pat_completeness auto
termination
  by (relation "measure length") (auto simp: length_dropWhile_le less_Suc_eq_le)

definition trim_ws :: "string \<Rightarrow> string" where
  "trim_ws s = rev (dropWhile py_isspace (rev (dropWhile py_isspace s)))"

definition normalize_spec :: "string \<Rightarrow> string" where
  "normalize_spec text = trim_ws (collapse_ws (re_sub_special (py_lower text)))"

section \<open>config\<close>

definition HIGH_CONFIDENCE_THRESHOLD :: int where
  "HIGH_CONFIDENCE_THRESHOLD = 90"

text \<open>The three values of the dictionary \<open>RISK_LEVELS\<close>, by key.\<close>

definition RISK_LEVELS_HIGH :: string where
  "RISK_LEVELS_HIGH = ''High''"

definition RISK_LEVELS_MEDIUM :: string where
  "RISK_LEVELS_MEDIUM = ''Medium''"

definition RISK_LEVELS_LOW :: string where
  "RISK_LEVELS_LOW = ''Low''"

text \<open>The entries of \<open>INVOICE_COLUMNS\<close> and \<open>CLINICAL_COLUMNS\<close> that the engine reads.\<close>

definition INVOICE_COLUMNS_po_number :: string where
  "INVOICE_COLUMNS_po_number = ''PO_Number''"

definition INVOICE_COLUMNS_vendor_item :: string where
  "INVOICE_COLUMNS_vendor_item = ''Vendor_Item_Name''"

definition INVOICE_COLUMNS_unit_cost :: string where
  "INVOICE_COLUMNS_unit_cost = ''Unit_Cost''"

definition CLINICAL_COLUMNS_clinical_item :: string where
  "CLINICAL_COLUMNS_clinical_item = ''Clinical_Item_Desc''"

section \<open>ReconciliationEngine.classify_risk\<close>

record ReconciliationEngine =
  match_threshold :: int

text \<open>The three status messages start with a symbol outside ASCII (U+2705, U+26A0
  U+FE0F, U+274C), written here as its UTF-8 bytes.\<close>

definition STATUS_MATCH_FOUND :: string where
  "STATUS_MATCH_FOUND = [CHR 0xE2, CHR 0x9C, CHR 0x85] @ '' Match Found''"

definition STATUS_REVIEW_REQUIRED :: string where
  "STATUS_REVIEW_REQUIRED =
     [CHR 0xE2, CHR 0x9A, CHR 0xA0, CHR 0xEF, CHR 0xB8, CHR 0x8F] @ '' Review Required''"

definition STATUS_REVENUE_LEAKAGE :: string where
  "STATUS_REVENUE_LEAKAGE = [CHR 0xE2, CHR 0x9D, CHR 0x8C] @ '' REVENUE LEAKAGE''"

definition classify_risk :: "ReconciliationEngine \<Rightarrow> int \<Rightarrow> string \<times> string" where
  "classify_risk self match_score =
     (if match_score \<ge> HIGH_CONFIDENCE_THRESHOLD then (STATUS_MATCH_FOUND, RISK_LEVELS_LOW)
      else if match_score \<ge> match_threshold self then (STATUS_REVIEW_REQUIRED, RISK_LEVELS_MEDIUM)
      else (STATUS_REVENUE_LEAKAGE, RISK_LEVELS_HIGH))"

section \<open>ReconciliationEngine.fuzzy_match_item\<close>

text \<open>
  Modelled from the spec: \<open>process.extractOne\<close> belongs to the library \<open>thefuzz\<close>, which
  is not among the sources. It scores every choice against the query, drops a choice
  whose score is below the cutoff 0, and returns the choice with the largest score
  together with that score; of several choices with the largest score the first one
  wins, and an empty list of choices gives \<open>None\<close>. The scorer is the argument
  \<open>scorer\<close> of \<open>fuzzy_match_item\<close> (by default \<open>fuzz.token_sort_ratio\<close>, a similarity
  between 0 and 100); it stands for the score the library gives a query and a choice.
\<close>

fun extract_best ::
  "(string \<Rightarrow> string \<Rightarrow> int) \<Rightarrow> string \<Rightarrow> string list \<Rightarrow> (string \<times> int) option
     \<Rightarrow> (string \<times> int) option" where
  "extract_best scorer query [] best = best"
| "extract_best scorer query (choice # choices) best =
     (let score = scorer query choice in
      if 0 \<le> score \<and> (case best of None \<Rightarrow> True | Some (b, best_score) \<Rightarrow> best_score < score)
      then extract_best scorer query choices (Some (choice, score))
      else extract_best scorer query choices best)"

definition extractOne ::
  "(string \<Rightarrow> string \<Rightarrow> int) \<Rightarrow> string \<Rightarrow> string list \<Rightarrow> (string \<times> int) option" where
  "extractOne scorer query choices = extract_best scorer query choices None"

text \<open>\<open>xs.index(x)\<close>: the first position of \<open>x\<close>, or \<open>ValueError\<close>.\<close>

fun list_index :: "'a list \<Rightarrow> 'a \<Rightarrow> pyerror + nat" where
  "list_index [] x = Inl (ValueError ''x is not in list'')"
| "list_index (y # ys) x =
     (if y = x then Inr 0 else bind_err (list_index ys x) (\<lambda>i. Inr (Suc i)))"

text \<open>\<open>xs[i]\<close> for a position \<open>i \<ge> 0\<close>: \<open>IndexError\<close> out of range.\<close>

definition list_getitem :: "'a list \<Rightarrow> nat \<Rightarrow> pyerror + 'a" where
  "list_getitem xs i = (if i < length xs then Inr (xs ! i) else Inl IndexError)"

definition fuzzy_match_item ::
  "ReconciliationEngine \<Rightarrow> pyval \<Rightarrow> pyval list \<Rightarrow> (string \<Rightarrow> string \<Rightarrow> int)
     \<Rightarrow> pyerror + (pyval \<times> int)" where
  "fuzzy_match_item self vendor_item clinical_items scorer =
     (let normalized_vendor = normalize_text vendor_item;
          normalized_clinical = map normalize_text clinical_items
      in case extractOne scorer normalized_vendor normalized_clinical of
           Some best_match \<Rightarrow>
             bind_err (list_index normalized_clinical (fst best_match)) (\<lambda>match_index.
             bind_err (list_getitem clinical_items match_index) (\<lambda>item.
             Inr (item, snd best_match)))
         | None \<Rightarrow> Inr (PStr ''No Match Found'', 0))"

section \<open>Tables\<close>

text \<open>
  A \<open>DataFrame\<close> is its list of column names and its rows, each row giving the cell
  under a column name. Reading a column that the table does not have is a \<open>KeyError\<close>;
  column names are taken to be distinct.
\<close>

record dataframe =
  df_columns :: "string list"
  df_rows :: "(string \<Rightarrow> pyval) list"

definition df_empty :: "dataframe \<Rightarrow> bool" where
  "df_empty df = (df_rows df = [] \<or> df_columns df = [])"

definition df_getcol :: "dataframe \<Rightarrow> string \<Rightarrow> pyerror + pyval list" where
  "df_getcol df col =
     (if col \<in> set (df_columns df) then Inr (map (\<lambda>row. row col) (df_rows df))
      else Inl (KeyError col))"

definition row_getitem :: "dataframe \<Rightarrow> (string \<Rightarrow> pyval) \<Rightarrow> string \<Rightarrow> pyerror + pyval" where
  "row_getitem df row col =
     (if col \<in> set (df_columns df) then Inr (row col) else Inl (KeyError col))"

text \<open>A dictionary literal with string keys, read as a row; \<open>pd.DataFrame(results)\<close>
  takes the columns from the keys.\<close>

definition row_of_dict :: "(string \<times> pyval) list \<Rightarrow> string \<Rightarrow> pyval" where
  "row_of_dict d col = (case map_of d col of Some v \<Rightarrow> v | None \<Rightarrow> PStr [])"

definition DataFrame_of_dicts :: "(string \<times> pyval) list list \<Rightarrow> dataframe" where
  "DataFrame_of_dicts results =
     \<lparr>df_columns = (case results of [] \<Rightarrow> [] | d # _ \<Rightarrow> map fst d),
      df_rows = map row_of_dict results\<rparr>"

section \<open>utils.validate_dataframe\<close>

text \<open>
  \<^verbatim>\<open>
  if df is None or df.empty:
      return False, "DataFrame is empty"
  missing_columns = set(required_columns) - set(df.columns)
  if missing_columns:
      return False, f"Missing required columns: {', '.join(missing_columns)}"
  return True, None
  \<close>
  Python does not fix the order in which a set of strings is iterated; the argument
  \<open>set_order\<close> is that order, a rearrangement of the elements.
\<close>

definition validate_dataframe ::
  "(string list \<Rightarrow> string list) \<Rightarrow> dataframe option \<Rightarrow> string list \<Rightarrow> bool \<times> string option" where
  "validate_dataframe set_order df required_columns =
     (case df of
        None \<Rightarrow> (False, Some ''DataFrame is empty'')
      | Some d \<Rightarrow>
          if df_empty d then (False, Some ''DataFrame is empty'')
          else
            let missing_columns =
                  set_order (filter (\<lambda>c. c \<notin> set (df_columns d)) (remdups required_columns))
            in if missing_columns \<noteq> []
               then (False, Some (''Missing required columns: '' @ py_join '', '' missing_columns))
               else (True, None))"

section \<open>ReconciliationEngine.reconcile\<close>

text \<open>The format \<open>f"${x:,.2f}"\<close> of a whole number: digits in groups of three and two
  zero decimals. A string cell raises \<open>ValueError\<close>.\<close>

fun group_thousands :: "string \<Rightarrow> string" where
  "group_thousands ds =
     (if length ds \<le> 3 then ds
      else group_thousands (take (length ds - 3) ds) @ '','' @ drop (length ds - 3) ds)"

declare group_thousands.simps [simp del]

fun format_cost :: "pyval \<Rightarrow> pyerror + string" where
  "format_cost (PInt n) =
     Inr (''$'' @ (if n < 0 then ''-'' else []) @ group_thousands (digits10 (nat \<bar>n\<bar>)) @ ''.00'')"
| "format_cost (PStr s) =
     Inl (ValueError (''Unknown format code '' @ [CHR 0x27] @ ''f'' @ [CHR 0x27]
            @ '' for object of type '' @ [CHR 0x27] @ ''str'' @ [CHR 0x27]))"

text \<open>\<open>f"{message}"\<close> of the second component that \<open>validate_dataframe\<close> returns.\<close>

fun format_optional :: "string option \<Rightarrow> string" where
  "format_optional None = ''None''"
| "format_optional (Some s) = s"

text \<open>The body of the loop over the invoice rows: one dictionary per row.\<close>

definition reconcile_row ::
  "(string \<Rightarrow> string \<Rightarrow> int) \<Rightarrow> ReconciliationEngine \<Rightarrow> dataframe \<Rightarrow> pyval list
     \<Rightarrow> (string \<Rightarrow> pyval) \<Rightarrow> pyerror + (string \<times> pyval) list" where
  "reconcile_row scorer self df_invoice clinical_descriptions row =
     bind_err (row_getitem df_invoice row INVOICE_COLUMNS_vendor_item) (\<lambda>vendor_item.
     bind_err (fuzzy_match_item self vendor_item clinical_descriptions scorer) (\<lambda>matched.
     let match_name = fst matched; match_score = snd matched;
         status = fst (classify_risk self match_score);
         risk_level = snd (classify_risk self match_score)
     in
     bind_err (row_getitem df_invoice row INVOICE_COLUMNS_po_number) (\<lambda>po_number.
     bind_err (row_getitem df_invoice row INVOICE_COLUMNS_unit_cost) (\<lambda>unit_cost.
     bind_err (format_cost unit_cost) (\<lambda>unit_cost_text.
     Inr [(''PO_Number'', po_number),
          (''Vendor_Item'', vendor_item),
          (''Clinical_Match'', match_name),
          (''Confidence_Score'', PStr (py_str_int match_score @ ''%'')),
          (''Confidence_Score_Numeric'', PInt match_score),
          (''Unit_Cost'', PStr unit_cost_text),
          (''Cost_At_Risk'', unit_cost),
          (''Status'', PStr status),
          (''Risk_Level'', PStr risk_level)])))))"

fun reconcile_loop ::
  "(string \<Rightarrow> string \<Rightarrow> int) \<Rightarrow> ReconciliationEngine \<Rightarrow> dataframe \<Rightarrow> pyval list
     \<Rightarrow> (string \<Rightarrow> pyval) list \<Rightarrow> (string \<times> pyval) list list
     \<Rightarrow> pyerror + (string \<times> pyval) list list" where
  "reconcile_loop scorer self df_invoice clinical_descriptions [] results = Inr results"
| "reconcile_loop scorer self df_invoice clinical_descriptions (row # rows) results =
     bind_err (reconcile_row scorer self df_invoice clinical_descriptions row) (\<lambda>result.
     reconcile_loop scorer self df_invoice clinical_descriptions rows (results @ [result]))"

text \<open>
  The method reads \<open>self\<close> and assigns nothing to it; the engine is returned beside the
  result, so that what a call leaves behind can be stated. A raised exception is \<open>Inl\<close>.
\<close>

definition reconcile ::
  "(string list \<Rightarrow> string list) \<Rightarrow> (string \<Rightarrow> string \<Rightarrow> int) \<Rightarrow> ReconciliationEngine
     \<Rightarrow> dataframe option \<Rightarrow> dataframe option \<Rightarrow> (pyerror + dataframe) \<times> ReconciliationEngine" where
  "reconcile set_order scorer self df_invoice df_clinical =
     (let invoice_check =
            validate_dataframe set_order df_invoice
              [INVOICE_COLUMNS_po_number, INVOICE_COLUMNS_vendor_item, INVOICE_COLUMNS_unit_cost]
      in if \<not> fst invoice_check
         then (Inl (ValueError (''Invalid invoice data: '' @ format_optional (snd invoice_check))), self)
         else
           let clinical_check =
                 validate_dataframe set_order df_clinical [CLINICAL_COLUMNS_clinical_item]
           in if \<not> fst clinical_check
              then (Inl (ValueError (''Invalid clinical data: '' @ format_optional (snd clinical_check))), self)
              else
                (case (df_invoice, df_clinical) of
                   (Some invoices, Some clinical) \<Rightarrow>
                     (bind_err (df_getcol clinical CLINICAL_COLUMNS_clinical_item) (\<lambda>clinical_descriptions.
                      bind_err (reconcile_loop scorer self invoices clinical_descriptions (df_rows invoices) [])
                        (\<lambda>results. Inr (DataFrame_of_dicts results))), self)
                 | _ \<Rightarrow> (Inl TypeError, self)))"

section \<open>Statistics\<close>

text \<open>
  \<open>Series.sum()\<close> adds the cells from the left; the sum of no cells is 0. Adding two
  integers or joining two strings succeeds, an integer and a string raise \<open>TypeError\<close>.
  \<open>Series.mean()\<close> is the exact mean of a column of integers, not-a-number for an empty
  column, and \<open>TypeError\<close> when a cell is a string.
\<close>

fun py_add :: "pyval \<Rightarrow> pyval \<Rightarrow> pyerror + pyval" where
  "py_add (PInt a) (PInt b) = Inr (PInt (a + b))"
| "py_add (PStr a) (PStr b) = Inr (PStr (a @ b))"
| "py_add (PInt a) (PStr b) = Inl TypeError"
| "py_add (PStr a) (PInt b) = Inl TypeError"

fun sum_from :: "pyval \<Rightarrow> pyval list \<Rightarrow> pyerror + pyval" where
  "sum_from acc [] = Inr acc"
| "sum_from acc (v # vs) = bind_err (py_add acc v) (\<lambda>acc'. sum_from acc' vs)"

fun series_sum :: "pyval list \<Rightarrow> pyerror + pyval" where
  "series_sum [] = Inr (PInt 0)"
| "series_sum (v # vs) = sum_from v vs"

fun int_cells :: "pyval list \<Rightarrow> int list option" where
  "int_cells [] = Some []"
| "int_cells (PInt n # vs) = (case int_cells vs of None \<Rightarrow> None | Some ns \<Rightarrow> Some (n # ns))"
| "int_cells (PStr s # vs) = None"

definition series_mean :: "pyval list \<Rightarrow> pyerror + pynum" where
  "series_mean vs =
     (if vs = [] then Inr NaN
      else case int_cells vs of
             None \<Rightarrow> Inl TypeError
           | Some ns \<Rightarrow> Inr (Num (of_int (sum_list ns) / of_nat (length ns))))"

record SummaryEntry =
  count :: nat
  total_amount :: pyval
  avg_amount :: pynum

text \<open>\<open>df[df[col] == value]\<close>: the rows whose cell under \<open>col\<close> is the string \<open>value\<close>.\<close>

definition df_filter_eq :: "dataframe \<Rightarrow> string \<Rightarrow> string \<Rightarrow> pyerror + dataframe" where
  "df_filter_eq df col v =
     bind_err (df_getcol df col) (\<lambda>cells.
     Inr (df\<lparr>df_rows := filter (\<lambda>row. row col = PStr v) (df_rows df)\<rparr>))"

text \<open>The body of the loop of \<open>generate_summary_stats\<close> for one risk level.\<close>

definition summary_entry :: "dataframe \<Rightarrow> string \<Rightarrow> pyerror + SummaryEntry" where
  "summary_entry df_results risk_level =
     bind_err (df_filter_eq df_results ''Risk_Level'' risk_level) (\<lambda>filtered.
     bind_err (bind_err (df_getcol filtered ''Cost_At_Risk'') series_sum) (\<lambda>total.
     bind_err (if length (df_rows filtered) > 0
               then bind_err (df_getcol filtered ''Cost_At_Risk'') series_mean
               else Inr (Num 0)) (\<lambda>avg.
     Inr \<lparr>count = length (df_rows filtered), total_amount = total, avg_amount = avg\<rparr>)))"

fun summary_loop ::
  "dataframe \<Rightarrow> string list \<Rightarrow> (string \<rightharpoonup> SummaryEntry) \<Rightarrow> pyerror + (string \<rightharpoonup> SummaryEntry)" where
  "summary_loop df_results [] summary = Inr summary"
| "summary_loop df_results (risk_level # levels) summary =
     bind_err (summary_entry df_results risk_level) (\<lambda>entry.
     summary_loop df_results levels (summary(risk_level \<mapsto> entry)))"

definition generate_summary_stats ::
  "ReconciliationEngine \<Rightarrow> dataframe \<Rightarrow> pyerror + (string \<rightharpoonup> SummaryEntry)" where
  "generate_summary_stats self df_results =
     summary_loop df_results [RISK_LEVELS_HIGH, RISK_LEVELS_MEDIUM, RISK_LEVELS_LOW] Map.empty"

text \<open>
  \<open>utils.calculate_financial_metrics\<close>: the aggregation inside \<open>try\<close>, and the zero
  entry of the \<open>except\<close> branch (the float 0.0 is the number 0).
\<close>

definition zero_metrics :: SummaryEntry where
  "zero_metrics = \<lparr>count = 0, total_amount = PInt 0, avg_amount = Num 0\<rparr>"

definition calculate_financial_metrics :: "dataframe \<Rightarrow> string \<Rightarrow> SummaryEntry" where
  "calculate_financial_metrics df cost_column =
     (case bind_err (bind_err (df_getcol df cost_column) series_sum) (\<lambda>total.
           bind_err (bind_err (df_getcol df cost_column) series_mean) (\<lambda>avg.
           Inr \<lparr>count = length (df_rows df), total_amount = total, avg_amount = avg\<rparr>)) of
        Inr metrics \<Rightarrow> metrics
      | Inl e \<Rightarrow> zero_metrics)"

section \<open>Risk classification\<close>

text \<open>
  Claim C1. For every integer score, \<open>classify_risk\<close> returns the "match found" status
  with tier Low when the score is at least 90 (\<open>HIGH_CONFIDENCE_THRESHOLD\<close>, the
  boundary included), otherwise the "review required" status with tier Medium when the
  score is at least the configured \<open>match_threshold\<close>, otherwise the "revenue leakage"
  status with tier High; the branches are tried in that order. With threshold 70 the
  scores 95 and 90 are Low, 75 is Medium and 50 is High.
\<close>

theorem classify_risk_branches:
  "classify_risk self score =
     (if 90 \<le> score then (STATUS_MATCH_FOUND, ''Low'')
      else if match_threshold self \<le> score then (STATUS_REVIEW_REQUIRED, ''Medium'')
      else (STATUS_REVENUE_LEAKAGE, ''High''))
   \<and> HIGH_CONFIDENCE_THRESHOLD = 90
   \<and> snd (classify_risk \<lparr>match_threshold = 70\<rparr> 95) = ''Low''
   \<and> snd (classify_risk \<lparr>match_threshold = 70\<rparr> 90) = ''Low''
   \<and> snd (classify_risk \<lparr>match_threshold = 70\<rparr> 75) = ''Medium''
   \<and> snd (classify_risk \<lparr>match_threshold = 70\<rparr> 50) = ''High''"
  by (simp add: classify_risk_def HIGH_CONFIDENCE_THRESHOLD_def RISK_LEVELS_LOW_def
      RISK_LEVELS_MEDIUM_def RISK_LEVELS_HIGH_def)

text \<open>
  Claim C10. The high-confidence branch is tried first, so for every score and every
  configured threshold the tier is Medium exactly when
  \<open>match_threshold \<le> score < 90\<close>; when the threshold is 90 or more, no score is
  classified Medium.
\<close>

theorem classify_risk_medium_iff:
  "(snd (classify_risk self score) = RISK_LEVELS_MEDIUM
      \<longleftrightarrow> match_threshold self \<le> score \<and> score < 90)
   \<and> (90 \<le> match_threshold self \<longrightarrow> snd (classify_risk self score) \<noteq> RISK_LEVELS_MEDIUM)"
  by (simp add: classify_risk_def HIGH_CONFIDENCE_THRESHOLD_def RISK_LEVELS_LOW_def
      RISK_LEVELS_MEDIUM_def RISK_LEVELS_HIGH_def)

theorem classify_risk_medium_iff_witness:
  "(90::int) \<le> match_threshold \<lparr>match_threshold = 95\<rparr>
   \<and> snd (classify_risk \<lparr>match_threshold = 95\<rparr> 92) \<noteq> RISK_LEVELS_MEDIUM
   \<and> snd (classify_risk \<lparr>match_threshold = 70\<rparr> 75) = RISK_LEVELS_MEDIUM"
  using classify_risk_medium_iff [of "\<lparr>match_threshold = 95\<rparr>" 92]
    classify_risk_medium_iff [of "\<lparr>match_threshold = 70\<rparr>" 75]
  by simp

end
